theory Spec2Isabelle
  imports Main "HOL-Library.Word"
begin

section \<open>Values shared by both bridges\<close>

type_synonym byte = "8 word"
type_synonym bytes = "byte list"

text \<open>
  Go values that the source holds by reference (an \<open>http.ResponseWriter\<close>, a body stream)
  live in a store and are named by an address.
\<close>

type_synonym ref = nat

text \<open>
  A Go \<open>error\<close> value. \<open>errors_New\<close> is \<open>errors.New\<close>; \<open>extern\<close> is an error value made by a
  collaborator (the HTTP client, the responder), opaque but for its label. A \<open>nil\<close> error is
  \<open>None\<close> of \<open>error option\<close>.
\<close>

datatype error = errors_New string | extern string

section \<open>The collaborators from net/http\<close>

text \<open>
  \<open>http.ResponseWriter\<close>, the response sink of one HTTP exchange: the header map
  (\<open>Header().Add\<close> appends a value under a name), the status once the header has been
  written, the header as it was sent with that status, and the body bytes written so far.
  \<open>WriteHeader\<close> commits the status and the header once; a later call changes nothing.
  \<open>Write\<close> commits status 200 first when nothing was committed, then appends to the body.
  Header names are kept as the source spells them; HTTP compares them without regard to case.
\<close>

record ResponseWriter =
  rw_header :: "(string \<times> string) list"
  rw_status :: "nat option"
  rw_sent   :: "(string \<times> string) list"
  rw_body   :: bytes

definition Header_Add :: "string \<Rightarrow> string \<Rightarrow> ResponseWriter \<Rightarrow> ResponseWriter" where
  "Header_Add k v rw = rw\<lparr>rw_header := rw_header rw @ [(k, v)]\<rparr>"

definition WriteHeader :: "nat \<Rightarrow> ResponseWriter \<Rightarrow> ResponseWriter" where
  "WriteHeader code rw =
     (if rw_status rw = None then rw\<lparr>rw_status := Some code, rw_sent := rw_header rw\<rparr> else rw)"

definition StatusOK :: nat where "StatusOK = 200"
definition StatusBadRequest :: nat where "StatusBadRequest = 400"
definition MethodOptions :: string where "MethodOptions = ''OPTIONS''"
definition MethodPost :: string where "MethodPost = ''POST''"

definition ResponseWriter_Write :: "bytes \<Rightarrow> ResponseWriter \<Rightarrow> (nat \<times> error option) \<times> ResponseWriter" where
  "ResponseWriter_Write b rw =
     (let rw' = WriteHeader StatusOK rw
      in ((length b, None), rw'\<lparr>rw_body := rw_body rw' @ b\<rparr>))"

text \<open>
  What the HTTP server does when the handler has returned: a response whose header was never
  written goes out with status 200.
\<close>

definition finishRequest :: "ResponseWriter \<Rightarrow> ResponseWriter" where
  "finishRequest rw = WriteHeader StatusOK rw"

text \<open>A sink the server hands to a handler before anything was written to it.\<close>

definition fresh :: "ResponseWriter \<Rightarrow> bool" where
  "fresh rw = (rw_status rw = None \<and> rw_body rw = [])"

record Request =
  Request_Method :: string
  Request_Body   :: ref

record Response =
  Response_StatusCode :: nat
  Response_Status     :: string
  Response_Body       :: ref

text \<open>
  One call of \<open>http.Client.Post(url, contentType, body)\<close>: the address, the content type and
  the bytes the body reader holds when the call is made.
\<close>

record post_call =
  post_url         :: string
  post_contentType :: string
  post_body        :: bytes

text \<open>
  The HTTP client is a parameter. It answers a call with the number of bytes it took from the
  body reader and with either a transport error or a response.
\<close>

type_synonym http_Client = "post_call \<Rightarrow> nat \<times> (error + Response)"

section \<open>The store\<close>

text \<open>
  \<open>sinks\<close>: the response sinks; \<open>streams\<close>: the bytes not yet read of every body stream
  (request bodies on the server side, response bodies on the client side); \<open>posts\<close>: the calls
  made to the HTTP client, in order.
\<close>

record world =
  sinks   :: "ref \<Rightarrow> ResponseWriter"
  streams :: "ref \<Rightarrow> bytes"
  posts   :: "post_call list"

definition sink_upd :: "(ResponseWriter \<Rightarrow> ResponseWriter) \<Rightarrow> ref \<Rightarrow> world \<Rightarrow> world" where
  "sink_upd f w s = s\<lparr>sinks := (sinks s)(w := f (sinks s w))\<rparr>"

section \<open>The reader and writer wrappers\<close>

text \<open>
  \<open>io.ReaderOf\<close> wraps a stream as a \<open>msg.Reader\<close>. \<open>Read\<close> with a buffer of \<open>n\<close> bytes takes up to
  \<open>n\<close> bytes off the stream and reports \<open>io.EOF\<close> (\<open>errors.New("EOF")\<close>) when a non-empty
  buffer gets nothing.
\<close>

datatype msg_Reader = ReaderOf ref

definition EOF :: error where "EOF = errors_New ''EOF''"

fun msg_Read :: "msg_Reader \<Rightarrow> nat \<Rightarrow> world \<Rightarrow> (bytes \<times> error option) \<times> world" where
  "msg_Read (ReaderOf p) n s =
     (let rest = streams s p; got = take n rest
      in ((got, if got = [] \<and> 0 < n then Some EOF else None),
          s\<lparr>streams := (streams s)(p := drop n rest)\<rparr>))"

text \<open>\<open>writerResp\<close> embeds the \<open>http.ResponseWriter\<close>: its \<open>Write\<close> is the sink's.\<close>

datatype writerResp = writerResp ref

fun writerResp_Write :: "writerResp \<Rightarrow> bytes \<Rightarrow> world \<Rightarrow> (nat \<times> error option) \<times> world" where
  "writerResp_Write (writerResp w) b s =
     (let (res, rw') = ResponseWriter_Write b (sinks s w)
      in (res, s\<lparr>sinks := (sinks s)(w := rw')\<rparr>))"

definition writerResp_Close :: "writerResp \<Rightarrow> error option" where
  "writerResp_Close x = None"

text \<open>
  \<open>reader\<close>, the \<open>msg.ExchangeReader\<close> of the inbound bridge. Field \<open>w\<close> has the interface type
  \<open>msg.Writer\<close> in the source; the only value the source ever stores there is a \<open>writerResp\<close>.
\<close>

record reader =
  reader_r :: msg_Reader
  reader_w :: writerResp

definition reader_Close :: "reader \<Rightarrow> error option" where
  "reader_Close x = None"

definition reader_Read :: "reader \<Rightarrow> nat \<Rightarrow> world \<Rightarrow> (bytes \<times> error option) \<times> world" where
  "reader_Read x n s = msg_Read (reader_r x) n s"

definition reader_Writer :: "reader \<Rightarrow> writerResp \<times> error option" where
  "reader_Writer x = (reader_w x, None)"

section \<open>The responder\<close>

text \<open>
  The responder (\<open>msg.ExchangeReaderTaker\<close>) is a collaborator: any program over the calls
  that the reader and writer it holds offer. Each node is one call and continues with what
  the call returned; \<open>Return\<close> is the error \<open>ReaderTake\<close> returns.
\<close>

datatype prog =
    Return "error option"
  | Read reader nat "bytes \<times> error option \<Rightarrow> prog"
  | Writer reader "writerResp \<times> error option \<Rightarrow> prog"
  | CloseReader reader "error option \<Rightarrow> prog"
  | Write writerResp bytes "nat \<times> error option \<Rightarrow> prog"
  | CloseWriter writerResp "error option \<Rightarrow> prog"

type_synonym ExchangeReaderTaker = "reader \<Rightarrow> prog"

text \<open>The calls a responder made, in order, with what each returned.\<close>

datatype event =
    EvRead reader nat "bytes \<times> error option"
  | EvWriter reader "writerResp \<times> error option"
  | EvCloseReader reader "error option"
  | EvWrite writerResp bytes "nat \<times> error option"
  | EvCloseWriter writerResp "error option"

primrec run :: "prog \<Rightarrow> world \<Rightarrow> error option \<times> world \<times> event list" where
  "run (Return e) = (\<lambda>s. (e, s, []))"
| "run (Read x n k) = (\<lambda>s.
     let (res, s1) = reader_Read x n s; (e, s2, tr) = run (k res) s1
     in (e, s2, EvRead x n res # tr))"
| "run (Writer x k) = (\<lambda>s.
     let res = reader_Writer x; (e, s2, tr) = run (k res) s
     in (e, s2, EvWriter x res # tr))"
| "run (CloseReader x k) = (\<lambda>s.
     let res = reader_Close x; (e, s2, tr) = run (k res) s
     in (e, s2, EvCloseReader x res # tr))"
| "run (Write wr b k) = (\<lambda>s.
     let (res, s1) = writerResp_Write wr b s; (e, s2, tr) = run (k res) s1
     in (e, s2, EvWrite wr b res # tr))"
| "run (CloseWriter wr k) = (\<lambda>s.
     let res = writerResp_Close wr; (e, s2, tr) = run (k res) s
     in (e, s2, EvCloseWriter wr res # tr))"



section \<open>The inbound bridge\<close>

text \<open>\<open>Handler\<close>; the zero value holds a nil responder.\<close>

record Handler =
  Handler_ert :: "ExchangeReaderTaker option"

definition Handler_ReaderChain :: "ExchangeReaderTaker \<Rightarrow> Handler \<Rightarrow> error option \<times> Handler" where
  "Handler_ReaderChain ert x = (None, x\<lparr>Handler_ert := Some ert\<rparr>)"

text \<open>The reader that \<open>ServeHTTP\<close> builds from its two arguments.\<close>

definition ServeHTTP_reader :: "ref \<Rightarrow> Request \<Rightarrow> reader" where
  "ServeHTTP_reader w r = \<lparr>reader_r = ReaderOf (Request_Body r), reader_w = writerResp w\<rparr>"

text \<open>
  \<open>Handler.ServeHTTP\<close>. A handler is a function of the sink, the request and the store; \<open>None\<close>
  is a panic (here: the call through a nil responder).
\<close>

type_synonym http_Handler = "ref \<Rightarrow> Request \<Rightarrow> world \<Rightarrow> world option"

definition Handler_ServeHTTP :: "Handler \<Rightarrow> http_Handler" where
  "Handler_ServeHTTP x w r s =
     (case Handler_ert x of
        None \<Rightarrow> None
      | Some ert \<Rightarrow>
          (let (err, s1, tr) = run (ert (ServeHTTP_reader w r)) s
           in Some (if err \<noteq> None then sink_upd (WriteHeader StatusBadRequest) w s1 else s1)))"

section \<open>The outbound bridge\<close>

record Client =
  Client_addr :: string
  Client_cli  :: http_Client

text \<open>\<open>ClientMake\<close>; \<open>DefaultClient\<close> is \<open>http.DefaultClient\<close>, a parameter.\<close>

definition ClientMake :: "http_Client \<Rightarrow> string \<Rightarrow> http_Client option \<Rightarrow> Client" where
  "ClientMake DefaultClient addr cli =
     \<lparr>Client_addr = addr, Client_cli = (case cli of None \<Rightarrow> DefaultClient | Some c \<Rightarrow> c)\<rparr>"

text \<open>
  \<open>writer\<close>. The \<open>bytes.Buffer\<close> is the list of its unread bytes: \<open>Write\<close> appends, a read
  takes from the front. The zero buffer is empty.
\<close>

record writer =
  writer_buf :: bytes
  writer_cli :: Client

definition Client_Writer :: "Client \<Rightarrow> writer \<times> error option" where
  "Client_Writer x = (\<lparr>writer_buf = [], writer_cli = x\<rparr>, None)"

definition writer_Close :: "writer \<Rightarrow> error option" where
  "writer_Close x = None"

definition writer_Write :: "bytes \<Rightarrow> writer \<Rightarrow> (nat \<times> error option) \<times> writer" where
  "writer_Write b x = ((length b, None), x\<lparr>writer_buf := writer_buf x @ b\<rparr>)"

text \<open>
  \<open>writer.Reader\<close>. The body handed to \<open>Post\<close> is the buffer itself, so what the client reads
  leaves the buffer.
\<close>

definition writer_Reader :: "writer \<Rightarrow> world \<Rightarrow> (msg_Reader option \<times> error option) \<times> writer \<times> world" where
  "writer_Reader x s =
     (let call = \<lparr>post_url = Client_addr (writer_cli x),
                  post_contentType = ''application/octet-stream'',
                  post_body = writer_buf x\<rparr>;
          (taken, out) = Client_cli (writer_cli x) call;
          x1 = x\<lparr>writer_buf := drop taken (writer_buf x)\<rparr>;
          s1 = s\<lparr>posts := posts s @ [call]\<rparr>
      in case out of
           Inl err \<Rightarrow> ((None, Some err), x1, s1)
         | Inr resp \<Rightarrow>
             if Response_StatusCode resp \<noteq> 200
             then ((None, Some (errors_New (''http response status '' @ Response_Status resp))), x1, s1)
             else ((Some (ReaderOf (Response_Body resp)), None), x1, s1))"

text \<open>The writes of a caller, one after the other.\<close>

fun write_all :: "bytes list \<Rightarrow> writer \<Rightarrow> (nat \<times> error option) list \<times> writer" where
  "write_all [] x = ([], x)"
| "write_all (b # bs) x =
     (let (res, x1) = writer_Write b x; (rs, x2) = write_all bs x1 in (res # rs, x2))"

section \<open>The CORS wrapper\<close>

definition OK_bytes :: bytes where
  "OK_bytes = [0x4F, 0x4B]"

definition HandlerCORS :: "string \<Rightarrow> http_Handler \<Rightarrow> http_Handler" where
  "HandlerCORS origin h w r s =
     (if Request_Method r = MethodOptions
      then
        (let s1 = sink_upd (Header_Add ''access-control-allow-origin'' origin) w s;
             s2 = sink_upd (Header_Add ''access-control-allow-method'' MethodPost) w s1;
             s3 = sink_upd (Header_Add ''access-control-allow-headers'' ''content-type'') w s2;
             (res, rw') = ResponseWriter_Write OK_bytes (sinks s3 w)
         in Some (s3\<lparr>sinks := (sinks s3)(w := rw')\<rparr>))
      else h w r (sink_upd (Header_Add ''access-control-allow-origin'' origin) w s))"

section \<open>Auxiliary definitions\<close>


text \<open>Reading a \<open>msg.Reader\<close> to its end with a buffer of \<open>n\<close> bytes, as a caller would.\<close>

function ReadAll :: "msg_Reader \<Rightarrow> nat \<Rightarrow> world \<Rightarrow> bytes \<times> world" where
  "ReadAll (ReaderOf p) n s =
     (let res = msg_Read (ReaderOf p) n s; got = fst (fst res); s1 = snd res
      in if got = [] then ([], s1)
         else (let more = ReadAll (ReaderOf p) n s1 in (got @ fst more, snd more)))"
  by pat_completeness auto
termination
  apply (relation "measure (\<lambda>(rd, n, s). length (streams s (case rd of ReaderOf p \<Rightarrow> p)))")
   apply simp
  apply (auto simp: Let_def)
  done

text \<open>The text of an error, \<open>err.Error()\<close>.\<close>

fun Error :: "error \<Rightarrow> string" where
  "Error (errors_New t) = t"
| "Error (extern t) = t"

subsection \<open>Concrete inputs\<close>

definition world0 :: world where
  "world0 = \<lparr>sinks = (\<lambda>w. \<lparr>rw_header = [], rw_status = None, rw_sent = [], rw_body = []\<rparr>),
             streams = (\<lambda>p. []), posts = []\<rparr>"

definition request0 :: Request where
  "request0 = \<lparr>Request_Method = ''POST'', Request_Body = 0\<rparr>"

text \<open>A responder that writes two bytes and then reports an error.\<close>

definition partial_then_error :: ExchangeReaderTaker where
  "partial_then_error x =
     Write (reader_w x) [0x68, 0x69] (\<lambda>res. Return (Some (extern ''bad input'')))"



text \<open>An HTTP client whose send fails before it reads anything of the body.\<close>

definition client_refused :: http_Client where
  "client_refused c = (0, Inl (extern ''dial tcp: connection refused''))"

text \<open>An HTTP client that reads the whole body and gets the given response.\<close>

definition client_answers :: "Response \<Rightarrow> http_Client" where
  "client_answers resp c = (length (post_body c), Inr resp)"

definition response_ok :: Response where
  "response_ok = \<lparr>Response_StatusCode = 200, Response_Status = ''200 OK'', Response_Body = 7\<rparr>"

definition response_not_found :: Response where
  "response_not_found =
     \<lparr>Response_StatusCode = 404, Response_Status = ''404 Not Found'', Response_Body = 7\<rparr>"

section \<open>Responder registration\<close>

text \<open>
  C9. \<open>ReaderChain\<close> returns a nil error and stores the responder it is given, whatever the
  handler held before; \<open>ServeHTTP\<close> then runs that responder on the reader it builds; and a
  second registration leaves the same handler as if the first had never happened.
\<close>

theorem ReaderChain_registers:
  "fst (Handler_ReaderChain ert x) = None
   \<and> Handler_ert (snd (Handler_ReaderChain ert x)) = Some ert
   \<and> Handler_ServeHTTP (snd (Handler_ReaderChain ert x)) w r s =
       (let (err, s1, tr) = run (ert (ServeHTTP_reader w r)) s
        in Some (if err \<noteq> None then sink_upd (WriteHeader StatusBadRequest) w s1 else s1))
   \<and> snd (Handler_ReaderChain ert2 (snd (Handler_ReaderChain ert x))) = snd (Handler_ReaderChain ert2 x)
   \<and> Handler_ert (snd (Handler_ReaderChain ert2 (snd (Handler_ReaderChain ert x)))) = Some ert2"
  by (simp add: Handler_ReaderChain_def Handler_ServeHTTP_def)

section \<open>The sink under a responder\<close>










lemmas run_concrete =
  ServeHTTP_reader_def request0_def world0_def reader_Read_def reader_Writer_def
  reader_Close_def writerResp_Close_def ResponseWriter_Write_def WriteHeader_def
  StatusOK_def StatusBadRequest_def Let_def






section \<open>The outbound bridge: transition to the reader\<close>

lemma write_all_results:
  "fst (write_all Bs x) = map (\<lambda>b. (length b, None)) Bs"
  by (induction Bs arbitrary: x) (simp_all add: writer_Write_def case_prod_unfold Let_def)

lemma write_all_buf:
  "writer_buf (snd (write_all Bs x)) = writer_buf x @ concat Bs"
  by (induction Bs arbitrary: x) (simp_all add: writer_Write_def case_prod_unfold Let_def)

lemma write_all_cli:
  "writer_cli (snd (write_all Bs x)) = writer_cli x"
  by (induction Bs arbitrary: x) (simp_all add: writer_Write_def case_prod_unfold Let_def)

lemma Reader_posts:
  "posts (snd (snd (writer_Reader x s))) =
     posts s @ [\<lparr>post_url = Client_addr (writer_cli x),
                 post_contentType = ''application/octet-stream'',
                 post_body = writer_buf x\<rparr>]"
  by (simp add: writer_Reader_def Let_def split: prod.splits sum.splits)

lemma Reader_buf:
  "Client_cli (writer_cli x)
      \<lparr>post_url = Client_addr (writer_cli x), post_contentType = ''application/octet-stream'',
       post_body = writer_buf x\<rparr> = (taken, out) \<Longrightarrow>
   fst (snd (writer_Reader x s)) = x\<lparr>writer_buf := drop taken (writer_buf x)\<rparr>"
  by (simp add: writer_Reader_def Let_def split: sum.splits)

lemma ReadAll_all:
  "0 < n \<Longrightarrow> fst (ReadAll (ReaderOf p) n s) = streams s p"
proof (induction "length (streams s p)" arbitrary: s rule: less_induct)
  case less
  show ?case
  proof (cases "streams s p = []")
    case True
    then show ?thesis by (simp add: Let_def)
  next
    case False
    let ?s1 = "s\<lparr>streams := (streams s)(p := drop n (streams s p))\<rparr>"
    have "length (streams ?s1 p) < length (streams s p)" using False less.prems by simp
    from less.hyps[OF this less.prems] have "fst (ReadAll (ReaderOf p) n ?s1) = drop n (streams s p)"
      by simp
    with False less.prems show ?thesis by (simp add: Let_def)
  qed
qed

text \<open>
  C3. Each \<open>Write\<close> returns the length of its argument and a nil error and appends to the
  buffer; after the writes \<open>Bs\<close> on a new writer, \<open>Reader\<close> makes exactly one \<open>Post\<close> call, to the
  client's address, with content type \<open>application/octet-stream\<close> and the concatenation of
  \<open>Bs\<close> as the body.
\<close>

theorem Reader_posts_buffer:
  "fst (writer_Write b x) = (length b, None)
   \<and> writer_buf (snd (writer_Write b x)) = writer_buf x @ b
   \<and> fst (write_all Bs (fst (Client_Writer cl))) = map (\<lambda>b. (length b, None)) Bs
   \<and> posts (snd (snd (writer_Reader (snd (write_all Bs (fst (Client_Writer cl)))) s))) =
       posts s @ [\<lparr>post_url = Client_addr cl,
                   post_contentType = ''application/octet-stream'',
                   post_body = concat Bs\<rparr>]"
  by (simp add: Reader_posts write_all_results write_all_buf write_all_cli
      writer_Write_def Client_Writer_def)

text \<open>
  C4. When the client answers with status 200, \<open>Reader\<close> returns a nil error and a reader over
  the response body; reading that reader to its end gives the bytes of the response body
  stream, each once and in order.
\<close>

theorem Reader_status_200:
  assumes "Client_cli (writer_cli x)
      \<lparr>post_url = Client_addr (writer_cli x), post_contentType = ''application/octet-stream'',
       post_body = writer_buf x\<rparr> = (taken, Inr resp)"
    and "Response_StatusCode resp = 200"
    and "0 < n"
  shows "fst (writer_Reader x s) = (Some (ReaderOf (Response_Body resp)), None)
     \<and> streams (snd (snd (writer_Reader x s))) = streams s
     \<and> fst (ReadAll (ReaderOf (Response_Body resp)) n (snd (snd (writer_Reader x s)))) =
         streams s (Response_Body resp)"
proof -
  have "fst (writer_Reader x s) = (Some (ReaderOf (Response_Body resp)), None)"
    and st: "streams (snd (snd (writer_Reader x s))) = streams s"
    using assms(1,2) by (simp_all add: writer_Reader_def Let_def)
  moreover have "fst (ReadAll (ReaderOf (Response_Body resp)) n (snd (snd (writer_Reader x s)))) =
      streams s (Response_Body resp)"
    using ReadAll_all[OF assms(3), of "Response_Body resp" "snd (snd (writer_Reader x s))"] st
    by (simp only:)
  ultimately show ?thesis by (simp only: simp_thms)
qed

text \<open>
  C5. When the client answers with a status other than 200, \<open>Reader\<close> returns a nil reader and
  the error \<open>errors.New("http response status " + resp.Status)\<close>, whose text ends with the status
  text.
\<close>

theorem Reader_status_other:
  assumes "Client_cli (writer_cli x)
      \<lparr>post_url = Client_addr (writer_cli x), post_contentType = ''application/octet-stream'',
       post_body = writer_buf x\<rparr> = (taken, Inr resp)"
    and "Response_StatusCode resp \<noteq> 200"
  shows "fst (writer_Reader x s) =
       (None, Some (errors_New (''http response status '' @ Response_Status resp)))
     \<and> Error (errors_New (''http response status '' @ Response_Status resp)) =
       ''http response status '' @ Response_Status resp"
  using assms by (simp add: writer_Reader_def Let_def)

text \<open>
  C6. When the client reports a transport error, \<open>Reader\<close> returns that same error value and a
  nil reader, after exactly one \<open>Post\<close> call.
\<close>

theorem Reader_transport_error:
  assumes "Client_cli (writer_cli x)
      \<lparr>post_url = Client_addr (writer_cli x), post_contentType = ''application/octet-stream'',
       post_body = writer_buf x\<rparr> = (taken, Inl err)"
  shows "fst (writer_Reader x s) = (None, Some err)
     \<and> posts (snd (snd (writer_Reader x s))) =
         posts s @ [\<lparr>post_url = Client_addr (writer_cli x),
                     post_contentType = ''application/octet-stream'',
                     post_body = writer_buf x\<rparr>]"
  using assms by (simp add: writer_Reader_def Let_def)

lemmas post_concrete =
  writer_Reader_def client_refused_def client_answers_def response_ok_def
  response_not_found_def world0_def Let_def

theorem Reader_status_200_witness:
  "fst (writer_Reader \<lparr>writer_buf = [1, 2], writer_cli = \<lparr>Client_addr = ''http://peer/x'',
        Client_cli = client_answers response_ok\<rparr>\<rparr>
        (world0\<lparr>streams := (streams world0)(7 := [9, 8, 7])\<rparr>)) = (Some (ReaderOf 7), None)
   \<and> fst (ReadAll (ReaderOf 7) 2 (snd (snd (writer_Reader \<lparr>writer_buf = [1, 2],
        writer_cli = \<lparr>Client_addr = ''http://peer/x'', Client_cli = client_answers response_ok\<rparr>\<rparr>
        (world0\<lparr>streams := (streams world0)(7 := [9, 8, 7])\<rparr>))))) = [9, 8, 7]"
  using Reader_status_200[of "\<lparr>writer_buf = [1, 2], writer_cli = \<lparr>Client_addr = ''http://peer/x'',
        Client_cli = client_answers response_ok\<rparr>\<rparr>" 2 response_ok 2
        "world0\<lparr>streams := (streams world0)(7 := [9, 8, 7])\<rparr>"]
  by (simp add: client_answers_def response_ok_def world0_def del: ReadAll.simps)

theorem Reader_status_other_witness:
  "fst (writer_Reader \<lparr>writer_buf = [1, 2], writer_cli = \<lparr>Client_addr = ''http://peer/x'',
        Client_cli = client_answers response_not_found\<rparr>\<rparr> world0) =
     (None, Some (errors_New ''http response status 404 Not Found''))"
  using Reader_status_other[of "\<lparr>writer_buf = [1, 2], writer_cli = \<lparr>Client_addr = ''http://peer/x'',
        Client_cli = client_answers response_not_found\<rparr>\<rparr>" 2 response_not_found world0]
  by (simp add: client_answers_def response_not_found_def)

theorem Reader_transport_error_witness:
  "fst (writer_Reader \<lparr>writer_buf = [1, 2], writer_cli = \<lparr>Client_addr = ''http://peer/x'',
        Client_cli = client_refused\<rparr>\<rparr> world0) =
     (None, Some (extern ''dial tcp: connection refused''))
   \<and> posts (snd (snd (writer_Reader \<lparr>writer_buf = [1, 2], writer_cli = \<lparr>Client_addr = ''http://peer/x'',
        Client_cli = client_refused\<rparr>\<rparr> world0))) =
     [\<lparr>post_url = ''http://peer/x'', post_contentType = ''application/octet-stream'',
       post_body = [1, 2]\<rparr>]"
  using Reader_transport_error[of "\<lparr>writer_buf = [1, 2], writer_cli = \<lparr>Client_addr = ''http://peer/x'',
        Client_cli = client_refused\<rparr>\<rparr>" 0 "extern ''dial tcp: connection refused''" world0]
  by (simp add: client_refused_def world0_def)

text \<open>
  C10, amended. \<open>Reader\<close> leaves in the buffer what the client did not read of it. When the
  client read the body to its end, the buffer is empty after the transition, and a second
  \<open>Reader\<close> after further writes \<open>Bs\<close> makes a new \<open>Post\<close> call whose body is the concatenation of
  \<open>Bs\<close>; the first call stays in the log as it was.
\<close>

theorem Reader_drains:
  assumes "Client_cli (writer_cli x)
      \<lparr>post_url = Client_addr (writer_cli x), post_contentType = ''application/octet-stream'',
       post_body = writer_buf x\<rparr> = (taken, out)"
  shows "writer_buf (fst (snd (writer_Reader x s))) = drop taken (writer_buf x)
     \<and> (length (writer_buf x) \<le> taken \<longrightarrow>
          writer_buf (fst (snd (writer_Reader x s))) = []
          \<and> posts (snd (snd (writer_Reader (snd (write_all Bs (fst (snd (writer_Reader x s)))))
                (snd (snd (writer_Reader x s)))))) =
              posts s @ [\<lparr>post_url = Client_addr (writer_cli x),
                           post_contentType = ''application/octet-stream'',
                           post_body = writer_buf x\<rparr>,
                         \<lparr>post_url = Client_addr (writer_cli x),
                           post_contentType = ''application/octet-stream'',
                           post_body = concat Bs\<rparr>])"
proof -
  let ?x1 = "fst (snd (writer_Reader x s))"
  have x1: "?x1 = x\<lparr>writer_buf := drop taken (writer_buf x)\<rparr>"
    by (rule Reader_buf[OF assms])
  have "posts (snd (snd (writer_Reader (snd (write_all Bs ?x1)) (snd (snd (writer_Reader x s)))))) =
      posts s @ [\<lparr>post_url = Client_addr (writer_cli x),
                   post_contentType = ''application/octet-stream'',
                   post_body = writer_buf x\<rparr>,
                 \<lparr>post_url = Client_addr (writer_cli x),
                   post_contentType = ''application/octet-stream'',
                   post_body = drop taken (writer_buf x) @ concat Bs\<rparr>]"
    by (simp add: Reader_posts write_all_buf write_all_cli x1)
  with x1 show ?thesis by auto
qed

theorem Reader_drains_witness:
  "writer_buf (fst (snd (writer_Reader \<lparr>writer_buf = [1, 2], writer_cli = \<lparr>Client_addr = ''http://peer/x'',
        Client_cli = client_answers response_ok\<rparr>\<rparr> world0))) = []
   \<and> posts (snd (snd (writer_Reader
        (snd (write_all [[3], [4, 5]]
          (fst (snd (writer_Reader \<lparr>writer_buf = [1, 2], writer_cli = \<lparr>Client_addr = ''http://peer/x'',
            Client_cli = client_answers response_ok\<rparr>\<rparr> world0)))))
        (snd (snd (writer_Reader \<lparr>writer_buf = [1, 2], writer_cli = \<lparr>Client_addr = ''http://peer/x'',
            Client_cli = client_answers response_ok\<rparr>\<rparr> world0)))))) =
     [\<lparr>post_url = ''http://peer/x'', post_contentType = ''application/octet-stream'', post_body = [1, 2]\<rparr>,
      \<lparr>post_url = ''http://peer/x'', post_contentType = ''application/octet-stream'',
       post_body = [3, 4, 5]\<rparr>]"
  using Reader_drains[of "\<lparr>writer_buf = [1, 2], writer_cli = \<lparr>Client_addr = ''http://peer/x'',
        Client_cli = client_answers response_ok\<rparr>\<rparr>" 2 "Inr response_ok" world0 "[[3], [4, 5]]"]
  by (simp add: client_answers_def world0_def)

theorem Reader_drains_counterexample:
  "writer_buf (fst (snd (writer_Reader \<lparr>writer_buf = [1, 2], writer_cli = \<lparr>Client_addr = ''http://peer/x'',
        Client_cli = client_refused\<rparr>\<rparr> world0))) = [1, 2]
   \<and> posts (snd (snd (writer_Reader
        (fst (snd (writer_Reader \<lparr>writer_buf = [1, 2], writer_cli = \<lparr>Client_addr = ''http://peer/x'',
            Client_cli = client_refused\<rparr>\<rparr> world0)))
        (snd (snd (writer_Reader \<lparr>writer_buf = [1, 2], writer_cli = \<lparr>Client_addr = ''http://peer/x'',
            Client_cli = client_refused\<rparr>\<rparr> world0)))))) =
     [\<lparr>post_url = ''http://peer/x'', post_contentType = ''application/octet-stream'', post_body = [1, 2]\<rparr>,
      \<lparr>post_url = ''http://peer/x'', post_contentType = ''application/octet-stream'', post_body = [1, 2]\<rparr>]"
  by (simp add: post_concrete)

text \<open>
  C7. For an OPTIONS request on a fresh sink the result is the same for every inner handler:
  the response carries the three headers after those already set, status 200 and the body
  \<open>OK\<close>, and nothing else in the store changes. For any other method the result is that of the
  inner handler, applied once, to the store in which only \<open>access-control-allow-origin\<close> was added
  to the header of the sink.
\<close>

theorem HandlerCORS_behaviour:
  "(Request_Method r = MethodOptions \<longrightarrow> fresh (sinks s w) \<longrightarrow>
      (\<exists>s'. HandlerCORS origin h w r s = Some s' \<and> HandlerCORS origin h' w r s = Some s'
         \<and> rw_status (finishRequest (sinks s' w)) = Some StatusOK
         \<and> rw_sent (finishRequest (sinks s' w)) =
             rw_header (sinks s w) @ [(''access-control-allow-origin'', origin),
                                      (''access-control-allow-method'', ''POST''),
                                      (''access-control-allow-headers'', ''content-type'')]
         \<and> rw_body (finishRequest (sinks s' w)) = OK_bytes
         \<and> (\<forall>v. v \<noteq> w \<longrightarrow> sinks s' v = sinks s v)
         \<and> streams s' = streams s \<and> posts s' = posts s))
   \<and> (Request_Method r \<noteq> MethodOptions \<longrightarrow>
        HandlerCORS origin h w r s =
          h w r (s\<lparr>sinks := (sinks s)(w := (sinks s w)\<lparr>rw_header :=
                   rw_header (sinks s w) @ [(''access-control-allow-origin'', origin)]\<rparr>)\<rparr>))"
  by (simp add: HandlerCORS_def sink_upd_def Header_Add_def ResponseWriter_Write_def
      WriteHeader_def finishRequest_def fresh_def MethodPost_def Let_def)

theorem HandlerCORS_behaviour_witness:
  "rw_sent (finishRequest (sinks (the (HandlerCORS ''https://app''
        (Handler_ServeHTTP \<lparr>Handler_ert = Some partial_then_error\<rparr>) 0
        (request0\<lparr>Request_Method := ''OPTIONS''\<rparr>) world0)) 0)) =
     [(''access-control-allow-origin'', ''https://app''),
      (''access-control-allow-method'', ''POST''),
      (''access-control-allow-headers'', ''content-type'')]
   \<and> rw_body (finishRequest (sinks (the (HandlerCORS ''https://app''
        (Handler_ServeHTTP \<lparr>Handler_ert = Some partial_then_error\<rparr>) 0
        (request0\<lparr>Request_Method := ''OPTIONS''\<rparr>) world0)) 0)) = [0x4F, 0x4B]
   \<and> rw_status (finishRequest (sinks (the (HandlerCORS ''https://app''
        (Handler_ServeHTTP \<lparr>Handler_ert = Some partial_then_error\<rparr>) 0
        (request0\<lparr>Request_Method := ''OPTIONS''\<rparr>) world0)) 0)) = Some 200
   \<and> rw_sent (finishRequest (sinks (the (HandlerCORS ''https://app''
        (Handler_ServeHTTP \<lparr>Handler_ert = Some partial_then_error\<rparr>) 0 request0 world0)) 0)) =
     [(''access-control-allow-origin'', ''https://app'')]
   \<and> rw_body (finishRequest (sinks (the (HandlerCORS ''https://app''
        (Handler_ServeHTTP \<lparr>Handler_ert = Some partial_then_error\<rparr>) 0 request0 world0)) 0)) =
     [0x68, 0x69]"
  using HandlerCORS_behaviour[of "request0\<lparr>Request_Method := ''OPTIONS''\<rparr>" world0 0 "''https://app''"
      "Handler_ServeHTTP \<lparr>Handler_ert = Some partial_then_error\<rparr>"
      "Handler_ServeHTTP \<lparr>Handler_ert = Some partial_then_error\<rparr>"]
    HandlerCORS_behaviour[of request0 world0 0 "''https://app''"
      "Handler_ServeHTTP \<lparr>Handler_ert = Some partial_then_error\<rparr>"
      "Handler_ServeHTTP \<lparr>Handler_ert = Some partial_then_error\<rparr>"]
  by (auto simp: MethodOptions_def OK_bytes_def fresh_def partial_then_error_def
      Handler_ServeHTTP_def sink_upd_def finishRequest_def run_concrete)

end
